theory Spec2Isabelle
  imports Complex_Main
begin

section \<open>Numbers and configuration (types.ts)\<close>

text \<open>
  The simulation core of the brick breaker: \<^verbatim>\<open>Paddle.ts\<close>, \<^verbatim>\<open>Ball.ts\<close>,
  \<^verbatim>\<open>Brick.ts\<close> and the controller \<^verbatim>\<open>Game.ts\<close>.

  A TypeScript \<^verbatim>\<open>number\<close> that holds a coordinate, a size or a velocity is modelled as a
  \<^typ>\<open>real\<close>: the arithmetic is exact, the rounding of IEEE doubles and the values NaN and
  infinity are outside the model. Counters that the code only moves by whole steps
  (durability, score, lives, stage) are \<^typ>\<open>int\<close>, the combo counter, which starts at 0
  and is only incremented or reset, is a \<^typ>\<open>nat\<close>, and the row and column counts that bound the
  \<^verbatim>\<open>for\<close> loops are \<^typ>\<open>nat\<close>. Colours and every rendering method are left out, as are
  the callbacks and the high-score cache, which never feed back into the match state.
\<close>

datatype GameState = Idle | Playing | Paused | Gameover | Clear | Scores

datatype BrickType = Normal | Hard | Special

record BrickConfig =
  bc_type :: BrickType
  bc_durability :: int
  bc_score :: int

text \<open>The interface \<^verbatim>\<open>GameConfig\<close>, its nested objects flattened
  (\<^verbatim>\<open>config.canvas.width\<close> is \<open>canvas_width\<close>).\<close>

record GameConfig =
  canvas_width :: real
  canvas_height :: real
  paddle_width :: real
  paddle_height :: real
  paddle_speed :: real
  ball_radius :: real
  ball_initialSpeed :: real
  ball_maxSpeed :: real
  brick_width :: real
  brick_height :: real
  brick_rows :: nat
  brick_cols :: nat
  brick_gap :: real
  brick_topOffset :: real
  config_lives :: int
  maxLives :: int

definition DEFAULT_CONFIG :: GameConfig where
  "DEFAULT_CONFIG =
     \<lparr> canvas_width = 800, canvas_height = 600,
       paddle_width = 100, paddle_height = 15, paddle_speed = 8,
       ball_radius = 8, ball_initialSpeed = 5, ball_maxSpeed = 10,
       brick_width = 75, brick_height = 20, brick_rows = 5, brick_cols = 10,
       brick_gap = 2, brick_topOffset = 50,
       config_lives = 3, maxLives = 5 \<rparr>"

fun BRICK_CONFIGS :: "BrickType \<Rightarrow> BrickConfig" where
  "BRICK_CONFIGS Normal = \<lparr> bc_type = Normal, bc_durability = 1, bc_score = 10 \<rparr>"
| "BRICK_CONFIGS Hard = \<lparr> bc_type = Hard, bc_durability = 2, bc_score = 25 \<rparr>"
| "BRICK_CONFIGS Special = \<lparr> bc_type = Special, bc_durability = 1, bc_score = 50 \<rparr>"

section \<open>Paddle (Paddle.ts)\<close>

record Paddle =
  p_x :: real
  p_y :: real
  p_width :: real
  p_height :: real
  p_speed :: real
  p_canvasWidth :: real
  p_canvasHeight :: real
  direction :: real

text \<open>The constructor: bottom centre of the canvas, no movement intent.\<close>

definition Paddle_new :: "GameConfig \<Rightarrow> Paddle" where
  "Paddle_new config =
     \<lparr> p_x = (canvas_width config - paddle_width config) / 2,
       p_y = canvas_height config - 50,
       p_width = paddle_width config,
       p_height = paddle_height config,
       p_speed = paddle_speed config,
       p_canvasWidth = canvas_width config,
       p_canvasHeight = canvas_height config,
       direction = 0 \<rparr>"

definition Paddle_reset :: "Paddle \<Rightarrow> Paddle" where
  "Paddle_reset p =
     p\<lparr> p_x := (p_canvasWidth p - p_width p) / 2,
        p_y := p_canvasHeight p - 50,
        direction := 0 \<rparr>"

definition setDirection :: "real \<Rightarrow> Paddle \<Rightarrow> Paddle" where
  "setDirection dir p = p\<lparr> direction := dir \<rparr>"

definition setPositionX :: "real \<Rightarrow> Paddle \<Rightarrow> Paddle" where
  "setPositionX mouseX p =
     (let newX = mouseX - p_width p / 2;
          newX = max 0 (min newX (p_canvasWidth p - p_width p))
      in p\<lparr> p_x := newX \<rparr>)"

definition Paddle_update :: "Paddle \<Rightarrow> Paddle" where
  "Paddle_update p =
     (if direction p = 0 then p
      else
        let newX = p_x p + direction p * p_speed p;
            newX = max 0 (min newX (p_canvasWidth p - p_width p))
        in p\<lparr> p_x := newX \<rparr>)"

definition getCenterX :: "Paddle \<Rightarrow> real" where
  "getCenterX p = p_x p + p_width p / 2"

section \<open>Ball (Ball.ts)\<close>

datatype BallResult = BallPlaying | BallLost

record Ball =
  b_x :: real
  b_y :: real
  dx :: real
  dy :: real
  radius :: real
  initialSpeed :: real
  maxSpeed :: real
  b_canvasWidth :: real
  b_canvasHeight :: real
  launched :: bool

definition Ball_new :: "GameConfig \<Rightarrow> Ball" where
  "Ball_new config =
     \<lparr> b_x = 0, b_y = 0, dx = 0, dy = 0,
       radius = ball_radius config,
       initialSpeed = ball_initialSpeed config,
       maxSpeed = ball_maxSpeed config,
       b_canvasWidth = canvas_width config,
       b_canvasHeight = canvas_height config,
       launched = False \<rparr>"

definition Ball_reset :: "Paddle \<Rightarrow> Ball \<Rightarrow> Ball" where
  "Ball_reset paddle b =
     b\<lparr> b_x := getCenterX paddle,
        b_y := p_y paddle - radius b - 1,
        dx := 0, dy := 0,
        launched := False \<rparr>"

text \<open>\<^verbatim>\<open>launch\<close> draws two numbers from \<^verbatim>\<open>Math.random()\<close>; they are the parameters
  \<open>r1\<close> (the angle) and \<open>r2\<close> (the side).\<close>

definition launch :: "real \<Rightarrow> real \<Rightarrow> Ball \<Rightarrow> Ball" where
  "launch r1 r2 b =
     (if launched b then b
      else
        let angle = (r1 * 60 + 60) * (pi / 180)
        in b\<lparr> dx := initialSpeed b * cos angle * (if r2 > 0.5 then 1 else -1),
              dy := - initialSpeed b * sin angle,
              launched := True \<rparr>)"

text \<open>The speed magnitude, as \<^verbatim>\<open>checkPaddleCollision\<close> computes it. The hit
  position divides by the paddle width: for a paddle of width 0 the source computes with
  NaN or infinity, which the model does not follow, so the properties of the bounce are
  stated for a paddle of positive width.\<close>

definition speed :: "Ball \<Rightarrow> real" where
  "speed b = sqrt (dx b * dx b + dy b * dy b)"

definition checkPaddleCollision :: "Paddle \<Rightarrow> Ball \<Rightarrow> Ball" where
  "checkPaddleCollision paddle b =
     (let paddleX = p_x paddle;
          paddleY = p_y paddle;
          paddleWidth = p_width paddle;
          paddleHeight = p_height paddle
      in if dy b > 0 \<and>
            b_y b + radius b \<ge> paddleY \<and>
            b_y b + radius b \<le> paddleY + paddleHeight \<and>
            b_x b \<ge> paddleX \<and>
            b_x b \<le> paddleX + paddleWidth
         then
           let hitPosition = (b_x b - paddleX) / paddleWidth;
               angle = (hitPosition - 0.5) * pi * 0.7;
               newSpeed = min (speed b * 1.02) (maxSpeed b)
           in b\<lparr> dx := newSpeed * sin angle,
                 dy := - newSpeed * cos angle,
                 b_y := paddleY - radius b \<rparr>
         else b)"

text \<open>The three blocks of \<^verbatim>\<open>update\<close> that run before the loss test: position
  integration, the left and right walls, the top wall.\<close>

definition integrate :: "Ball \<Rightarrow> Ball" where
  "integrate b = b\<lparr> b_x := b_x b + dx b, b_y := b_y b + dy b \<rparr>"

definition sideWalls :: "Ball \<Rightarrow> Ball" where
  "sideWalls b =
     (if b_x b - radius b \<le> 0 then b\<lparr> b_x := radius b, dx := \<bar>dx b\<bar> \<rparr>
      else if b_x b + radius b \<ge> b_canvasWidth b
        then b\<lparr> b_x := b_canvasWidth b - radius b, dx := - \<bar>dx b\<bar> \<rparr>
      else b)"

definition topWall :: "Ball \<Rightarrow> Ball" where
  "topWall b =
     (if b_y b - radius b \<le> 0 then b\<lparr> b_y := radius b, dy := \<bar>dy b\<bar> \<rparr> else b)"

definition Ball_update :: "Paddle \<Rightarrow> Ball \<Rightarrow> BallResult \<times> Ball" where
  "Ball_update paddle b =
     (if \<not> launched b
      then (BallPlaying, b\<lparr> b_x := getCenterX paddle, b_y := p_y paddle - radius b - 1 \<rparr>)
      else
        let b1 = topWall (sideWalls (integrate b))
        in if b_y b1 - radius b1 > b_canvasHeight b1 then (BallLost, b1)
           else (BallPlaying, checkPaddleCollision paddle b1))"

definition checkBrickCollision ::
  "real \<Rightarrow> real \<Rightarrow> real \<Rightarrow> real \<Rightarrow> Ball \<Rightarrow> bool \<times> Ball" where
  "checkBrickCollision brickX brickY brickWidth brickHeight b =
     (let closestX = max brickX (min (b_x b) (brickX + brickWidth));
          closestY = max brickY (min (b_y b) (brickY + brickHeight));
          distanceX = b_x b - closestX;
          distanceY = b_y b - closestY;
          distance = sqrt (distanceX * distanceX + distanceY * distanceY)
      in if distance < radius b
         then
           let overlapX = radius b - \<bar>distanceX\<bar>;
               overlapY = radius b - \<bar>distanceY\<bar>
           in if overlapX < overlapY
              then (True, b\<lparr> dx := - dx b,
                             b_x := b_x b + (if distanceX > 0 then overlapX else - overlapX) \<rparr>)
              else (True, b\<lparr> dy := - dy b,
                             b_y := b_y b + (if distanceY > 0 then overlapY else - overlapY) \<rparr>)
         else (False, b))"

section \<open>Bricks (Brick.ts)\<close>

record Brick =
  br_x :: real
  br_y :: real
  br_width :: real
  br_height :: real
  br_config :: BrickConfig
  durability :: int
  destroyed :: bool

definition Brick_new :: "real \<Rightarrow> real \<Rightarrow> real \<Rightarrow> real \<Rightarrow> BrickType \<Rightarrow> Brick" where
  "Brick_new x y w h t =
     \<lparr> br_x = x, br_y = y, br_width = w, br_height = h,
       br_config = BRICK_CONFIGS t,
       durability = bc_durability (BRICK_CONFIGS t),
       destroyed = False \<rparr>"

text \<open>\<^verbatim>\<open>hit\<close> returns the destroyed signal together with the mutated brick.\<close>

definition hit :: "Brick \<Rightarrow> bool \<times> Brick" where
  "hit br =
     (let br1 = br\<lparr> durability := durability br - 1 \<rparr>
      in if durability br1 \<le> 0 then (True, br1\<lparr> destroyed := True \<rparr>)
         else (False, br1))"

definition getScore :: "Brick \<Rightarrow> int" where
  "getScore br = bc_score (br_config br)"

record BrickManager =
  bricks :: "Brick list"
  brickWidth :: real
  brickHeight :: real
  rows :: nat
  cols :: nat
  gap :: real
  topOffset :: real
  bm_canvasWidth :: real

definition BrickManager_new :: "GameConfig \<Rightarrow> BrickManager" where
  "BrickManager_new config =
     \<lparr> bricks = [],
       brickWidth = brick_width config,
       brickHeight = brick_height config,
       rows = brick_rows config,
       cols = brick_cols config,
       gap = brick_gap config,
       topOffset = brick_topOffset config,
       bm_canvasWidth = canvas_width config \<rparr>"

definition getBrickType :: "int \<Rightarrow> nat \<Rightarrow> nat \<Rightarrow> BrickType" where
  "getBrickType stage row col =
     (if stage = 1 then Normal
      else if stage = 2 then (if row < 2 then Hard else Normal)
      else if row = 0 then Special
      else if row < 2 then Hard
      else Normal)"

text \<open>The two nested \<^verbatim>\<open>for\<close> loops push one brick per cell, row by row.\<close>

definition createBricks :: "int \<Rightarrow> BrickManager \<Rightarrow> BrickManager" where
  "createBricks stage m =
     (let totalWidth = real (cols m) * (brickWidth m + gap m) - gap m;
          startX = (bm_canvasWidth m - totalWidth) / 2
      in m\<lparr> bricks :=
            concat (map (\<lambda>row. map (\<lambda>col.
              Brick_new (startX + real col * (brickWidth m + gap m))
                        (topOffset m + real row * (brickHeight m + gap m))
                        (brickWidth m) (brickHeight m)
                        (getBrickType stage row col))
              [0 ..< cols m]) [0 ..< rows m]) \<rparr>)"

text \<open>\<^verbatim>\<open>getActiveBricks\<close> returns references to the bricks of the array that are
  not destroyed; the model returns their indices, so that a hit on an active brick is
  an update of the manager's own array.\<close>

definition getActiveBricks :: "BrickManager \<Rightarrow> nat list" where
  "getActiveBricks m = filter (\<lambda>i. \<not> destroyed (bricks m ! i)) [0 ..< length (bricks m)]"

definition getRemainingCount :: "BrickManager \<Rightarrow> nat" where
  "getRemainingCount m = length (getActiveBricks m)"

section \<open>Match controller (Game.ts)\<close>

text \<open>
  The state of the controller. \<open>keys\<close> is the table of pressed key codes (a code that
  was never pressed reads as false). The animation-frame handle is not part of the
  model: a frame is the call \<open>gameLoop\<close>, which does nothing outside the playing state.
\<close>

record Game =
  config :: GameConfig
  state :: GameState
  previousState :: GameState
  paddle :: Paddle
  ball :: Ball
  brickManager :: BrickManager
  score :: int
  lives :: int
  stage :: int
  combo :: nat
  keys :: "string \<Rightarrow> bool"

definition Game_new :: "GameConfig \<Rightarrow> Game" where
  "Game_new cfg =
     \<lparr> config = cfg, state = Idle, previousState = Idle,
       paddle = Paddle_new cfg, ball = Ball_new cfg,
       brickManager = BrickManager_new cfg,
       score = 0, lives = config_lives cfg, stage = 1, combo = 0,
       keys = (\<lambda>_. False) \<rparr>"

definition initStage :: "int \<Rightarrow> Game \<Rightarrow> Game" where
  "initStage n g =
     (let g1 = g\<lparr> stage := n \<rparr>;
          g2 = g1\<lparr> brickManager := createBricks n (brickManager g1) \<rparr>;
          g3 = g2\<lparr> paddle := Paddle_reset (paddle g2) \<rparr>;
          g4 = g3\<lparr> ball := Ball_reset (paddle g3) (ball g3) \<rparr>
      in g4\<lparr> combo := 0 \<rparr>)"

definition handleBallLost :: "Game \<Rightarrow> Game" where
  "handleBallLost g =
     (let g1 = g\<lparr> lives := lives g - 1, combo := 0 \<rparr>
      in if lives g1 \<le> 0 then g1\<lparr> state := Gameover \<rparr>
         else g1\<lparr> ball := Ball_reset (paddle g1) (ball g1) \<rparr>)"

definition handleStageClear :: "Game \<Rightarrow> Game" where
  "handleStageClear g =
     (if stage g \<ge> 3 then g\<lparr> state := Clear \<rparr>
      else initStage (stage g + 1) g)"

text \<open>The combo bonus of \<^verbatim>\<open>checkBrickCollisions\<close>, read after the increment.\<close>

definition multiplier :: "nat \<Rightarrow> real" where
  "multiplier c = (if c \<ge> 10 then 2 else if c \<ge> 5 then 1.5 else 1)"

text \<open>The block of \<^verbatim>\<open>checkBrickCollisions\<close> under \<^verbatim>\<open>if (hit)\<close>, for the brick
  at index \<open>i\<close>: the brick is damaged, and when that destroys it the combo grows by one
  and the score by the brick's points.\<close>

definition resolveHit :: "nat \<Rightarrow> Game \<Rightarrow> Game" where
  "resolveHit i g =
     (let m = brickManager g;
          brick = bricks m ! i;
          (wasDestroyed, brick') = hit brick;
          g1 = g\<lparr> brickManager := m\<lparr> bricks := (bricks m)[i := brick'] \<rparr> \<rparr>
      in if wasDestroyed
         then
           let g2 = g1\<lparr> combo := combo g1 + 1 \<rparr>;
               points = \<lfloor>real_of_int (getScore brick') * multiplier (combo g2)\<rfloor>
           in g2\<lparr> score := score g2 + points \<rparr>
         else g1)"

text \<open>The \<^verbatim>\<open>for\<close> loop over the active bricks. A miss goes on with the next brick;
  a hit is resolved and leaves the loop (\<^verbatim>\<open>break\<close>).\<close>

fun scanBricks :: "nat list \<Rightarrow> Game \<Rightarrow> Game" where
  "scanBricks [] g = g"
| "scanBricks (i # rest) g =
     (let brick = bricks (brickManager g) ! i;
          (collided, b) = checkBrickCollision (br_x brick) (br_y brick)
                            (br_width brick) (br_height brick) (ball g);
          g1 = g\<lparr> ball := b \<rparr>
      in if collided then resolveHit i g1 else scanBricks rest g1)"

definition checkBrickCollisions :: "Game \<Rightarrow> Game" where
  "checkBrickCollisions g = scanBricks (getActiveBricks (brickManager g)) g"

definition Game_update :: "Game \<Rightarrow> Game" where
  "Game_update g =
     (let g1 = g\<lparr> paddle := Paddle_update (paddle g) \<rparr>;
          (ballResult, b) = Ball_update (paddle g1) (ball g1);
          g2 = g1\<lparr> ball := b \<rparr>
      in if ballResult = BallLost then handleBallLost g2
         else
           let g3 = checkBrickCollisions g2
           in if getRemainingCount (brickManager g3) = 0 then handleStageClear g3
              else g3)"

definition gameLoop :: "Game \<Rightarrow> Game" where
  "gameLoop g = (if state g \<noteq> Playing then g else Game_update g)"

definition start :: "Game \<Rightarrow> Game" where
  "start g =
     (if state g \<noteq> Idle then g
      else gameLoop (initStage (stage g) (g\<lparr> state := Playing \<rparr>)))"

definition pause :: "Game \<Rightarrow> Game" where
  "pause g = (if state g \<noteq> Playing then g else g\<lparr> state := Paused \<rparr>)"

definition resume :: "Game \<Rightarrow> Game" where
  "resume g = (if state g \<noteq> Paused then g else gameLoop (g\<lparr> state := Playing \<rparr>))"

definition quit :: "Game \<Rightarrow> Game" where
  "quit g =
     (if state g \<noteq> Paused \<and> state g \<noteq> Gameover \<and> state g \<noteq> Clear then g
      else
        let g1 = g\<lparr> state := Idle, score := 0, lives := config_lives (config g),
                    stage := 1, combo := 0 \<rparr>;
            g2 = g1\<lparr> paddle := Paddle_reset (paddle g1) \<rparr>
        in g2\<lparr> ball := Ball_reset (paddle g2) (ball g2) \<rparr>)"

definition restart :: "Game \<Rightarrow> Game" where
  "restart g =
     (let g1 = g\<lparr> state := Idle, score := 0, lives := config_lives (config g),
                 stage := 1, combo := 0 \<rparr>;
          g2 = g1\<lparr> paddle := Paddle_reset (paddle g1) \<rparr>
      in g2\<lparr> ball := Ball_reset (paddle g2) (ball g2) \<rparr>)"

text \<open>The key handlers take the key code \<^verbatim>\<open>e.code\<close>; \<open>handleKeyDown\<close> and
  \<open>handleClick\<close> also take the two random numbers a launch may draw. An early
  \<^verbatim>\<open>return\<close> of the source is a branch that leaves the chain of later tests.\<close>

definition handleKeyDown :: "real \<Rightarrow> real \<Rightarrow> string \<Rightarrow> Game \<Rightarrow> Game" where
  "handleKeyDown r1 r2 code g0 =
     (let g = g0\<lparr> keys := (keys g0)(code := True) \<rparr>
      in if code = ''KeyS'' \<and> state g = Scores then g\<lparr> state := previousState g \<rparr>
         else if code = ''KeyS'' \<and>
                 (state g = Idle \<or> state g = Gameover \<or> state g = Clear)
           then g\<lparr> previousState := state g, state := Scores \<rparr>
         else if state g = Scores
           then (if code = ''Escape'' then g\<lparr> state := previousState g \<rparr> else g)
         else
           let g1 = (if code = ''ArrowLeft'' \<or> code = ''KeyA''
                       then g\<lparr> paddle := setDirection (- 1) (paddle g) \<rparr>
                     else if code = ''ArrowRight'' \<or> code = ''KeyD''
                       then g\<lparr> paddle := setDirection 1 (paddle g) \<rparr>
                     else g);
               g2 = (if code = ''Space''
                       then (if state g1 = Idle then start g1
                             else if state g1 = Playing \<and> \<not> launched (ball g1)
                               then g1\<lparr> ball := launch r1 r2 (ball g1) \<rparr>
                             else g1)
                     else g1);
               g3 = (if code = ''Escape'' \<or> code = ''KeyP''
                       then (if state g2 = Playing then pause g2
                             else if state g2 = Paused then resume g2
                             else g2)
                     else g2);
               g4 = (if code = ''KeyQ''
                       then (if state g3 = Paused \<or> state g3 = Gameover \<or> state g3 = Clear
                               then quit g3 else g3)
                     else g3);
               g5 = (if code = ''Escape''
                       then (if state g4 = Gameover \<or> state g4 = Clear
                               then quit g4 else g4)
                     else g4)
           in if code = ''KeyR''
              then (if state g5 = Gameover \<or> state g5 = Clear then restart g5 else g5)
              else g5)"

definition handleKeyUp :: "string \<Rightarrow> Game \<Rightarrow> Game" where
  "handleKeyUp code g0 =
     (let g = g0\<lparr> keys := (keys g0)(code := False) \<rparr>
      in if code = ''ArrowLeft'' \<or> code = ''KeyA''
           then (if \<not> keys g ''ArrowRight'' \<and> \<not> keys g ''KeyD''
                   then g\<lparr> paddle := setDirection 0 (paddle g) \<rparr>
                   else g\<lparr> paddle := setDirection 1 (paddle g) \<rparr>)
         else if code = ''ArrowRight'' \<or> code = ''KeyD''
           then (if \<not> keys g ''ArrowLeft'' \<and> \<not> keys g ''KeyA''
                   then g\<lparr> paddle := setDirection 0 (paddle g) \<rparr>
                   else g\<lparr> paddle := setDirection (- 1) (paddle g) \<rparr>)
         else g)"

text \<open>\<open>mouseX\<close> is the pointer's x relative to the canvas
  (\<^verbatim>\<open>e.clientX - rect.left\<close>).\<close>

definition handleMouseMove :: "real \<Rightarrow> Game \<Rightarrow> Game" where
  "handleMouseMove mouseX g =
     (if state g \<noteq> Playing then g
      else g\<lparr> paddle := setPositionX mouseX (paddle g) \<rparr>)"

definition handleClick :: "real \<Rightarrow> real \<Rightarrow> Game \<Rightarrow> Game" where
  "handleClick r1 r2 g =
     (if state g = Idle then start g
      else if state g = Playing \<and> \<not> launched (ball g)
        then g\<lparr> ball := launch r1 r2 (ball g) \<rparr>
      else g)"

section \<open>Predicates used by the properties\<close>

text \<open>The paddle states the program can produce from a configuration: the constructor,
  followed by any sequence of the mutating methods with any arguments.\<close>

inductive reachablePaddle :: "GameConfig \<Rightarrow> Paddle \<Rightarrow> bool" for cfg where
  rp_new: "reachablePaddle cfg (Paddle_new cfg)"
| rp_reset: "reachablePaddle cfg p \<Longrightarrow> reachablePaddle cfg (Paddle_reset p)"
| rp_setDirection: "reachablePaddle cfg p \<Longrightarrow> reachablePaddle cfg (setDirection d p)"
| rp_setPositionX: "reachablePaddle cfg p \<Longrightarrow> reachablePaddle cfg (setPositionX mouseX p)"
| rp_update: "reachablePaddle cfg p \<Longrightarrow> reachablePaddle cfg (Paddle_update p)"

definition inBounds :: "Paddle \<Rightarrow> bool" where
  "inBounds p = (0 \<le> p_x p \<and> p_x p \<le> p_canvasWidth p - p_width p)"




text \<open>The test of \<^verbatim>\<open>checkBrickCollisions\<close> on one brick, and the ball it leaves.\<close>

definition brickHit :: "Ball \<Rightarrow> Brick \<Rightarrow> bool" where
  "brickHit b br =
     fst (checkBrickCollision (br_x br) (br_y br) (br_width br) (br_height br) b)"

definition bounceOff :: "Brick \<Rightarrow> Ball \<Rightarrow> Ball" where
  "bounceOff br b =
     snd (checkBrickCollision (br_x br) (br_y br) (br_width br) (br_height br) b)"

text \<open>The state of a frame in which the ball is not lost, after the paddle update, the
  ball update and the brick scan: the state \<^verbatim>\<open>update\<close> tests for a cleared stage.\<close>

definition afterBrickScan :: "Game \<Rightarrow> Game" where
  "afterBrickScan g =
     checkBrickCollisions
       (g\<lparr> paddle := Paddle_update (paddle g),
           ball := snd (Ball_update (Paddle_update (paddle g)) (ball g)) \<rparr>)"

subsection \<open>Concrete states\<close>

text \<open>A launched ball beside the paddle, centre 5 above the bottom line and falling by 5
  per frame; and one that is already below the bottom line.\<close>

definition fallingBall :: Ball where
  "fallingBall =
     \<lparr> b_x = 100, b_y = 595, dx = 0, dy = 5, radius = 8, initialSpeed = 5, maxSpeed = 10,
       b_canvasWidth = 800, b_canvasHeight = 600, launched = True \<rparr>"

definition lostBall :: Ball where
  "lostBall =
     \<lparr> b_x = 100, b_y = 605, dx = 0, dy = 5, radius = 8, initialSpeed = 5, maxSpeed = 10,
       b_canvasWidth = 800, b_canvasHeight = 600, launched = True \<rparr>"

text \<open>A playing state with two neighbouring bricks, the ball in the gap below them and
  touching both; the first brick is a hard one that has already taken a hit.\<close>

definition twoBricksGame :: Game where
  "twoBricksGame =
     (Game_new DEFAULT_CONFIG)
       \<lparr> state := Playing,
         ball := (Ball_new DEFAULT_CONFIG)
                   \<lparr> b_x := 176, b_y := 120, dx := 0, dy := - 10, launched := True \<rparr>,
         brickManager := (BrickManager_new DEFAULT_CONFIG)
                   \<lparr> bricks := [(Brick_new 100 100 75 20 Hard)\<lparr> durability := 1 \<rparr>,
                                Brick_new 177 100 75 20 Normal] \<rparr>,
         score := 40, combo := 4 \<rparr>"


text \<open>A match in progress (score 30, two lives, combo 3) in the controller state \<open>s\<close>.\<close>

definition midGame :: "GameState \<Rightarrow> Game" where
  "midGame s =
     (initStage 1 (Game_new DEFAULT_CONFIG))\<lparr> state := s, score := 30, lives := 2, combo := 3 \<rparr>"

section \<open>Paddle: the position stays on the canvas\<close>

lemma reachablePaddle_fields:
  "reachablePaddle cfg p \<Longrightarrow>
     p_width p = paddle_width cfg \<and> p_canvasWidth p = canvas_width cfg"
  by (induction rule: reachablePaddle.induct)
     (simp_all add: Paddle_new_def Paddle_reset_def setDirection_def setPositionX_def
        Paddle_update_def Let_def)

lemma reachablePaddle_inBounds:
  "reachablePaddle cfg p \<Longrightarrow> paddle_width cfg \<le> canvas_width cfg \<Longrightarrow> inBounds p"
proof (induction rule: reachablePaddle.induct)
  case rp_new
  then show ?case by (simp add: inBounds_def Paddle_new_def)
next
  case (rp_reset p)
  then show ?case
    using reachablePaddle_fields [of cfg p] by (simp add: inBounds_def Paddle_reset_def)
next
  case (rp_setDirection p d)
  then show ?case by (simp add: inBounds_def setDirection_def)
next
  case (rp_setPositionX p mouseX)
  then show ?case
    using reachablePaddle_fields [of cfg p] by (simp add: inBounds_def setPositionX_def Let_def)
next
  case (rp_update p)
  then show ?case
    using reachablePaddle_fields [of cfg p] by (simp add: inBounds_def Paddle_update_def Let_def)
qed

text \<open>
  Claim C2. For a configuration whose paddle is not wider than the canvas, every paddle
  state the program can reach (from the constructor, through \<open>reset\<close>, \<open>setDirection\<close>,
  \<open>setPositionX\<close> and \<open>update\<close> with any arguments) has
  \<open>0 \<le> x \<le> canvasWidth - paddleWidth\<close>, and so has the state after one more call of
  \<open>setPositionX\<close> (with any pointer coordinate), \<open>update\<close> or \<open>reset\<close>, and the
  initial state.
\<close>

theorem paddle_position_bounded:
  assumes "paddle_width cfg \<le> canvas_width cfg" and "reachablePaddle cfg p"
  shows "0 \<le> p_x p \<and> p_x p \<le> canvas_width cfg - paddle_width cfg \<and>
         0 \<le> p_x (setPositionX mouseX p) \<and>
         p_x (setPositionX mouseX p) \<le> canvas_width cfg - paddle_width cfg \<and>
         0 \<le> p_x (Paddle_update p) \<and>
         p_x (Paddle_update p) \<le> canvas_width cfg - paddle_width cfg \<and>
         0 \<le> p_x (Paddle_reset p) \<and>
         p_x (Paddle_reset p) \<le> canvas_width cfg - paddle_width cfg \<and>
         0 \<le> p_x (Paddle_new cfg) \<and>
         p_x (Paddle_new cfg) \<le> canvas_width cfg - paddle_width cfg"
proof -
  have f: "p_width p = paddle_width cfg \<and> p_canvasWidth p = canvas_width cfg"
    using assms(2) by (rule reachablePaddle_fields)
  have "inBounds p" using assms(2,1) by (rule reachablePaddle_inBounds)
  moreover have "inBounds (setPositionX mouseX p)"
    using assms(1) reachablePaddle_inBounds rp_setPositionX [OF assms(2)] by blast
  moreover have "inBounds (Paddle_update p)"
    using assms(1) reachablePaddle_inBounds rp_update [OF assms(2)] by blast
  moreover have "inBounds (Paddle_reset p)"
    using assms(1) reachablePaddle_inBounds rp_reset [OF assms(2)] by blast
  moreover have "inBounds (Paddle_new cfg)"
    using assms(1) reachablePaddle_inBounds rp_new by blast
  ultimately show ?thesis
    using f by (simp add: inBounds_def setPositionX_def Paddle_update_def Paddle_reset_def
        Paddle_new_def Let_def)
qed

text \<open>The theorem at the default configuration: the pointer far to the right puts the
  paddle at 700, and a step to the right from there is clamped back to 700.\<close>

theorem paddle_position_bounded_witness:
  "paddle_width DEFAULT_CONFIG \<le> canvas_width DEFAULT_CONFIG \<and>
   reachablePaddle DEFAULT_CONFIG (setDirection 1 (setPositionX 790 (Paddle_new DEFAULT_CONFIG))) \<and>
   p_x (setDirection 1 (setPositionX 790 (Paddle_new DEFAULT_CONFIG))) = 700 \<and>
   p_x (Paddle_update (setDirection 1 (setPositionX 790 (Paddle_new DEFAULT_CONFIG)))) = 700 \<and>
   0 \<le> p_x (Paddle_update (setDirection 1 (setPositionX 790 (Paddle_new DEFAULT_CONFIG)))) \<and>
   p_x (Paddle_update (setDirection 1 (setPositionX 790 (Paddle_new DEFAULT_CONFIG))))
     \<le> canvas_width DEFAULT_CONFIG - paddle_width DEFAULT_CONFIG \<and>
   p_x (setPositionX (- 20) (setDirection 1 (setPositionX 790 (Paddle_new DEFAULT_CONFIG)))) = 0"
proof -
  have c: "paddle_width DEFAULT_CONFIG \<le> canvas_width DEFAULT_CONFIG"
    by (simp add: DEFAULT_CONFIG_def)
  have r: "reachablePaddle DEFAULT_CONFIG
             (setDirection 1 (setPositionX 790 (Paddle_new DEFAULT_CONFIG)))"
    by (intro rp_setDirection rp_setPositionX rp_new)
  show ?thesis
    using c r paddle_position_bounded [OF c r, of "- 20"]
    by (simp add: DEFAULT_CONFIG_def Paddle_new_def setPositionX_def setDirection_def
        Paddle_update_def Let_def)
qed

section \<open>Brick: a hit after destruction\<close>

text \<open>
  Claim C10. \<open>hit\<close> always lowers the durability by one and returns true exactly when
  the durability after the decrement is at most 0; it never clears the destroyed flag.
  So on a brick whose durability has already reached 0 a further call makes the
  durability negative and returns true again.
\<close>

theorem hit_after_destruction:
  "fst (hit br) = (durability (snd (hit br)) \<le> 0) \<and>
   durability (snd (hit br)) = durability br - 1 \<and>
   (destroyed br \<longrightarrow> destroyed (snd (hit br))) \<and>
   (durability br \<le> 0 \<longrightarrow>
      fst (hit br) \<and> durability (snd (hit br)) < 0 \<and> destroyed (snd (hit br)))"
  by (simp add: hit_def Let_def)

text \<open>A normal brick is destroyed by its first hit; the second hit returns true again and
  leaves the durability at -1.\<close>

theorem hit_after_destruction_witness:
  "destroyed (snd (hit (Brick_new 0 0 75 20 Normal))) \<and>
   durability (snd (hit (Brick_new 0 0 75 20 Normal))) = 0 \<and>
   fst (hit (snd (hit (Brick_new 0 0 75 20 Normal)))) \<and>
   durability (snd (hit (snd (hit (Brick_new 0 0 75 20 Normal))))) = - 1 \<and>
   destroyed (snd (hit (snd (hit (Brick_new 0 0 75 20 Normal)))))"
  using hit_after_destruction [of "snd (hit (Brick_new 0 0 75 20 Normal))"]
  by (simp add: hit_def Brick_new_def Let_def)

section \<open>Ball: the loss test of update\<close>

text \<open>
  Claim C1 as stated does not hold. The canvas y axis points down, so the bottom edge of
  the ball is \<open>y + radius\<close>, while \<^verbatim>\<open>update\<close> tests \<open>y - radius > canvasHeight\<close>,
  the top edge. The falling ball has its centre on the bottom line after the position
  integration: its bottom edge, at 608, has passed the canvas height 600, and the call
  still returns the playing signal.
\<close>

theorem ball_update_lost_counterexample:
  "launched fallingBall \<and>
   b_y (topWall (sideWalls (integrate fallingBall))) + radius fallingBall
     > b_canvasHeight fallingBall \<and>
   fst (Ball_update (Paddle_new DEFAULT_CONFIG) fallingBall) = BallPlaying"
  by (simp add: fallingBall_def Ball_update_def topWall_def sideWalls_def integrate_def
      checkPaddleCollision_def Paddle_new_def DEFAULT_CONFIG_def Let_def)

text \<open>
  Claim C1, amended. For every launched ball, \<^verbatim>\<open>update\<close> returns the lost signal
  exactly when, after the position integration and the wall reflections, the top edge of
  the ball \<open>y - radius\<close> is beyond the canvas height (the whole ball has left the canvas).
  When it returns lost, the ball is left as the integration and the wall reflections made
  it: no paddle collision is tried and nothing else changes. Otherwise the paddle
  collision check runs on that ball.
\<close>

theorem ball_update_lost_iff:
  assumes "launched b"
  shows "(fst (Ball_update p b) = BallLost) =
           (b_y (topWall (sideWalls (integrate b))) - radius b > b_canvasHeight b) \<and>
         (fst (Ball_update p b) = BallLost \<longrightarrow>
            snd (Ball_update p b) = topWall (sideWalls (integrate b))) \<and>
         (fst (Ball_update p b) \<noteq> BallLost \<longrightarrow>
            snd (Ball_update p b) = checkPaddleCollision p (topWall (sideWalls (integrate b))))"
proof -
  have "radius (topWall (sideWalls (integrate b))) = radius b"
       "b_canvasHeight (topWall (sideWalls (integrate b))) = b_canvasHeight b"
    by (simp_all add: topWall_def sideWalls_def integrate_def)
  then show ?thesis using assms by (simp add: Ball_update_def Let_def)
qed

text \<open>
  The ball that is below the bottom line is lost: its top edge is at 602 after the
  integration, and the call only moved it by its velocity.
\<close>

theorem ball_update_lost_iff_witness:
  "launched lostBall \<and>
   fst (Ball_update (Paddle_new DEFAULT_CONFIG) lostBall) = BallLost \<and>
   snd (Ball_update (Paddle_new DEFAULT_CONFIG) lostBall) = lostBall\<lparr> b_y := 610 \<rparr> \<and>
   b_y (topWall (sideWalls (integrate lostBall))) - radius lostBall = 602"
  using ball_update_lost_iff [of lostBall "Paddle_new DEFAULT_CONFIG"]
  by (simp add: lostBall_def topWall_def sideWalls_def integrate_def)

section \<open>Ball: the speed of a launched ball\<close>





























section \<open>Controller: the brick scan\<close>

text \<open>
  A miss leaves the ball as it was, so the scan is: find the first active brick that the
  ball, as it entered the scan, collides with, and resolve the hit on that brick alone.
\<close>

lemma miss_keeps_ball:
  "\<not> fst (checkBrickCollision x y w h b) \<Longrightarrow> snd (checkBrickCollision x y w h b) = b"
  unfolding checkBrickCollision_def Let_def
  by (simp only: fst_conv snd_conv simp_thms split: if_splits)

lemma scanBricks_find:
  "scanBricks idxs g =
     (case find (\<lambda>i. brickHit (ball g) (bricks (brickManager g) ! i)) idxs of
        None \<Rightarrow> g
      | Some i \<Rightarrow> resolveHit i (g\<lparr> ball := bounceOff (bricks (brickManager g) ! i) (ball g) \<rparr>))"
proof (induction idxs)
  case Nil
  then show ?case by simp
next
  case (Cons i rest)
  show ?case
  proof (cases "brickHit (ball g) (bricks (brickManager g) ! i)")
    case True
    then show ?thesis
      by (simp add: brickHit_def bounceOff_def Let_def case_prod_beta)
  next
    case False
    then have "bounceOff (bricks (brickManager g) ! i) (ball g) = ball g"
      by (simp add: brickHit_def bounceOff_def miss_keeps_ball)
    then show ?thesis
      using False Cons.IH
      by (simp add: brickHit_def bounceOff_def Let_def case_prod_beta)
  qed
qed

lemma resolveHit_bricks:
  "bricks (brickManager (resolveHit i g)) =
     (bricks (brickManager g))[i := snd (hit (bricks (brickManager g) ! i))]"
  by (simp add: resolveHit_def Let_def case_prod_beta)

lemma resolveHit_combo_score:
  "combo (resolveHit i g) =
     (if fst (hit (bricks (brickManager g) ! i)) then combo g + 1 else combo g) \<and>
   score (resolveHit i g) =
     (if fst (hit (bricks (brickManager g) ! i))
      then score g + \<lfloor>real_of_int (getScore (bricks (brickManager g) ! i)) * multiplier (combo g + 1)\<rfloor>
      else score g)"
  by (simp add: resolveHit_def Let_def case_prod_beta getScore_def hit_def)

lemma resolveHit_frame:
  "state (resolveHit i g) = state g \<and> lives (resolveHit i g) = lives g \<and>
   stage (resolveHit i g) = stage g \<and> paddle (resolveHit i g) = paddle g \<and>
   ball (resolveHit i g) = ball g \<and> config (resolveHit i g) = config g \<and>
   previousState (resolveHit i g) = previousState g \<and> keys (resolveHit i g) = keys g"
  by (simp add: resolveHit_def Let_def case_prod_beta)

lemma find_SomeD: "find P xs = Some x \<Longrightarrow> x \<in> set xs \<and> P x"
  by (induction xs) (auto split: if_splits)

lemma find_active:
  "find P (getActiveBricks m) = Some i \<Longrightarrow>
     i < length (bricks m) \<and> \<not> destroyed (bricks m ! i) \<and> P i"
  using find_SomeD [of P "getActiveBricks m" i] by (simp add: getActiveBricks_def)

lemma scanBricks_frame:
  "state (scanBricks idxs g) = state g \<and> lives (scanBricks idxs g) = lives g \<and>
   stage (scanBricks idxs g) = stage g \<and> paddle (scanBricks idxs g) = paddle g \<and>
   config (scanBricks idxs g) = config g \<and>
   previousState (scanBricks idxs g) = previousState g \<and>
   keys (scanBricks idxs g) = keys g"
  by (simp add: scanBricks_find resolveHit_frame split: option.splits)

lemma checkBrickCollisions_frame:
  "state (checkBrickCollisions g) = state g \<and> lives (checkBrickCollisions g) = lives g \<and>
   stage (checkBrickCollisions g) = stage g \<and> paddle (checkBrickCollisions g) = paddle g"
  by (simp add: checkBrickCollisions_def scanBricks_frame)

lemma afterBrickScan_frame:
  "state (afterBrickScan g) = state g \<and> lives (afterBrickScan g) = lives g \<and>
   stage (afterBrickScan g) = stage g \<and>
   paddle (afterBrickScan g) = Paddle_update (paddle g)"
  by (simp add: afterBrickScan_def checkBrickCollisions_frame)

lemma Game_update_playing:
  assumes "fst (Ball_update (Paddle_update (paddle g)) (ball g)) = BallPlaying"
  shows "Game_update g =
           (if getRemainingCount (brickManager (afterBrickScan g)) = 0
            then handleStageClear (afterBrickScan g) else afterBrickScan g)"
  using assms by (simp add: Game_update_def afterBrickScan_def Let_def case_prod_beta)

lemma Game_update_lost:
  assumes "fst (Ball_update (Paddle_update (paddle g)) (ball g)) = BallLost"
  shows "Game_update g =
           handleBallLost (g\<lparr> paddle := Paddle_update (paddle g),
                               ball := snd (Ball_update (Paddle_update (paddle g)) (ball g)) \<rparr>)"
  using assms by (simp add: Game_update_def Let_def case_prod_beta)

lemma scan_first_hit:
  "(case find (\<lambda>i. brickHit (ball g) (bricks (brickManager g) ! i))
           (getActiveBricks (brickManager g)) of
      None \<Rightarrow> bricks (brickManager (checkBrickCollisions g)) = bricks (brickManager g)
    | Some i \<Rightarrow>
        i < length (bricks (brickManager g)) \<and>
        \<not> destroyed (bricks (brickManager g) ! i) \<and>
        bricks (brickManager (checkBrickCollisions g)) =
          (bricks (brickManager g))[i := snd (hit (bricks (brickManager g) ! i))] \<and>
        durability (bricks (brickManager (checkBrickCollisions g)) ! i) =
          durability (bricks (brickManager g) ! i) - 1) \<and>
   (\<exists>i. \<forall>j. j \<noteq> i \<longrightarrow>
      bricks (brickManager (checkBrickCollisions g)) ! j = bricks (brickManager g) ! j) \<and>
   length (bricks (brickManager (checkBrickCollisions g))) = length (bricks (brickManager g))"
proof (cases "find (\<lambda>i. brickHit (ball g) (bricks (brickManager g) ! i))
                (getActiveBricks (brickManager g))")
  case None
  then have "checkBrickCollisions g = g"
    by (simp add: checkBrickCollisions_def scanBricks_find)
  then show ?thesis using None by simp
next
  case (Some i)
  then have e: "bricks (brickManager (checkBrickCollisions g)) =
          (bricks (brickManager g))[i := snd (hit (bricks (brickManager g) ! i))]"
    by (simp add: checkBrickCollisions_def scanBricks_find resolveHit_bricks)
  have a: "i < length (bricks (brickManager g)) \<and> \<not> destroyed (bricks (brickManager g) ! i)"
    using find_active [OF Some] by simp
  have d: "durability (bricks (brickManager (checkBrickCollisions g)) ! i) =
          durability (bricks (brickManager g) ! i) - 1"
    using a by (simp add: e hit_def Let_def)
  have "\<forall>j. j \<noteq> i \<longrightarrow>
      bricks (brickManager (checkBrickCollisions g)) ! j = bricks (brickManager g) ! j"
    by (simp add: e)
  then have "\<exists>i. \<forall>j. j \<noteq> i \<longrightarrow>
      bricks (brickManager (checkBrickCollisions g)) ! j = bricks (brickManager g) ! j"
    by blast
  then show ?thesis using Some a d e by simp
qed

text \<open>
  Claim C3. The brick scan of a frame resolves at most one brick. If no active brick
  collides with the ball, the brick array is unchanged. Otherwise the first active brick
  (in array order) that reports a hit is the only one that changes: it takes one hit, so its
  durability drops by one, and every other brick is as before, whether or not the ball
  overlaps it too. The array keeps its length. Within a frame the scan is the only
  change to the bricks: a frame that loses the ball leaves them alone, and a frame that
  keeps the ball and leaves a brick standing ends with the bricks of the scan (a frame
  that clears the stage goes on to the stage transition).
\<close>

theorem one_brick_per_tick:
  "(case find (\<lambda>i. brickHit (ball g) (bricks (brickManager g) ! i))
           (getActiveBricks (brickManager g)) of
      None \<Rightarrow> bricks (brickManager (checkBrickCollisions g)) = bricks (brickManager g)
    | Some i \<Rightarrow>
        i < length (bricks (brickManager g)) \<and>
        \<not> destroyed (bricks (brickManager g) ! i) \<and>
        bricks (brickManager (checkBrickCollisions g)) =
          (bricks (brickManager g))[i := snd (hit (bricks (brickManager g) ! i))] \<and>
        durability (bricks (brickManager (checkBrickCollisions g)) ! i) =
          durability (bricks (brickManager g) ! i) - 1) \<and>
   (\<exists>i. \<forall>j. j \<noteq> i \<longrightarrow>
      bricks (brickManager (checkBrickCollisions g)) ! j = bricks (brickManager g) ! j) \<and>
   length (bricks (brickManager (checkBrickCollisions g))) = length (bricks (brickManager g)) \<and>
   (fst (Ball_update (Paddle_update (paddle g)) (ball g)) = BallLost \<longrightarrow>
      brickManager (Game_update g) = brickManager g) \<and>
   (fst (Ball_update (Paddle_update (paddle g)) (ball g)) = BallPlaying \<and>
    getRemainingCount (brickManager (afterBrickScan g)) \<noteq> 0 \<longrightarrow>
      brickManager (Game_update g) = brickManager (afterBrickScan g))"
proof -
  have l: "fst (Ball_update (Paddle_update (paddle g)) (ball g)) = BallLost \<longrightarrow>
      brickManager (Game_update g) = brickManager g"
    by (simp add: Game_update_lost handleBallLost_def Let_def)
  have p: "fst (Ball_update (Paddle_update (paddle g)) (ball g)) = BallPlaying \<and>
    getRemainingCount (brickManager (afterBrickScan g)) \<noteq> 0 \<longrightarrow>
      brickManager (Game_update g) = brickManager (afterBrickScan g)"
    by (simp add: Game_update_playing)
  show ?thesis
    using scan_first_hit [of g] l p by (simp only: simp_thms)
qed

text \<open>
  The ball touches both bricks; only the first is damaged (and destroyed), the second is
  left as it was.
\<close>

lemma twoBricks_find:
  "find (\<lambda>i. brickHit (ball twoBricksGame) (bricks (brickManager twoBricksGame) ! i))
     (getActiveBricks (brickManager twoBricksGame)) = Some 0"
  by (simp add: twoBricksGame_def Game_new_def Ball_new_def BrickManager_new_def Brick_new_def
      DEFAULT_CONFIG_def getActiveBricks_def brickHit_def checkBrickCollision_def Let_def)

theorem one_brick_per_tick_witness:
  "brickHit (ball twoBricksGame) (bricks (brickManager twoBricksGame) ! 0) \<and>
   brickHit (ball twoBricksGame) (bricks (brickManager twoBricksGame) ! 1) \<and>
   bricks (brickManager (checkBrickCollisions twoBricksGame)) =
     [(Brick_new 100 100 75 20 Hard)\<lparr> durability := 0, destroyed := True \<rparr>,
      Brick_new 177 100 75 20 Normal]"
proof -
  have h: "brickHit (ball twoBricksGame) (bricks (brickManager twoBricksGame) ! 0) \<and>
           brickHit (ball twoBricksGame) (bricks (brickManager twoBricksGame) ! 1)"
    by (simp add: twoBricksGame_def Game_new_def Ball_new_def BrickManager_new_def Brick_new_def
      DEFAULT_CONFIG_def brickHit_def checkBrickCollision_def Let_def)
  have b: "bricks (brickManager twoBricksGame) =
             [(Brick_new 100 100 75 20 Hard)\<lparr> durability := 1 \<rparr>, Brick_new 177 100 75 20 Normal]"
    by (simp add: twoBricksGame_def)
  note t = one_brick_per_tick [of twoBricksGame, unfolded twoBricks_find option.case]
  show ?thesis
    using h t by (simp add: b hit_def Brick_new_def Let_def)
qed

section \<open>Controller: combo and score\<close>

text \<open>
  Claim C4. When the scan destroys a brick (the hit brick reports destruction), the combo
  counter is first incremented and the score then grows by
  \<open>floor (brickScore * multiplier)\<close>, where the multiplier is read from the new combo: 2 from
  10 on, 1.5 from 5 on, 1 below. A hit that does not destroy, and a scan without a hit,
  leave combo and score unchanged. In particular the multiplier is 1 at combo 4, 1.5 at
  combo 5 and 2 at combo 10.
\<close>

theorem combo_scoring:
  "(case find (\<lambda>i. brickHit (ball g) (bricks (brickManager g) ! i))
           (getActiveBricks (brickManager g)) of
      None \<Rightarrow> combo (checkBrickCollisions g) = combo g \<and>
              score (checkBrickCollisions g) = score g
    | Some i \<Rightarrow>
        if fst (hit (bricks (brickManager g) ! i))
        then combo (checkBrickCollisions g) = combo g + 1 \<and>
             score (checkBrickCollisions g) =
               score g + \<lfloor>real_of_int (getScore (bricks (brickManager g) ! i)) *
                           (if combo g + 1 \<ge> 10 then 2
                            else if combo g + 1 \<ge> 5 then 1.5 else 1)\<rfloor>
        else combo (checkBrickCollisions g) = combo g \<and>
             score (checkBrickCollisions g) = score g) \<and>
   multiplier 4 = 1 \<and> multiplier 5 = 1.5 \<and> multiplier 10 = 2"
proof (cases "find (\<lambda>i. brickHit (ball g) (bricks (brickManager g) ! i))
                (getActiveBricks (brickManager g))")
  case None
  then have "checkBrickCollisions g = g"
    by (simp add: checkBrickCollisions_def scanBricks_find)
  then show ?thesis using None by (simp add: multiplier_def)
next
  case (Some i)
  then have "checkBrickCollisions g =
      resolveHit i (g\<lparr> ball := bounceOff (bricks (brickManager g) ! i) (ball g) \<rparr>)"
    by (simp add: checkBrickCollisions_def scanBricks_find)
  then show ?thesis
    using Some resolveHit_combo_score
      [of i "g\<lparr> ball := bounceOff (bricks (brickManager g) ! i) (ball g) \<rparr>"]
    by (simp add: multiplier_def)
qed

text \<open>
  At combo 4 and score 40, destroying the hard brick (25 points) gives combo 5 and adds
  \<open>floor (25 * 1.5) = 37\<close>.
\<close>

theorem combo_scoring_witness:
  "combo twoBricksGame = 4 \<and> score twoBricksGame = 40 \<and>
   fst (hit (bricks (brickManager twoBricksGame) ! 0)) \<and>
   getScore (bricks (brickManager twoBricksGame) ! 0) = 25 \<and>
   combo (checkBrickCollisions twoBricksGame) = 5 \<and>
   score (checkBrickCollisions twoBricksGame) = 77"
proof -
  have b: "bricks (brickManager twoBricksGame) =
             [(Brick_new 100 100 75 20 Hard)\<lparr> durability := 1 \<rparr>, Brick_new 177 100 75 20 Normal]"
    by (simp add: twoBricksGame_def)
  have c: "combo twoBricksGame = 4 \<and> score twoBricksGame = 40"
    by (simp add: twoBricksGame_def)
  note t = combo_scoring [of twoBricksGame, unfolded twoBricks_find option.case]
  show ?thesis
    using c t by (simp add: b hit_def Brick_new_def getScore_def Let_def)
qed

section \<open>Controller: a cleared stage\<close>





section \<open>Controller: where the combo is reset\<close>

text \<open>
  Claim C5 as stated does not hold: \<^verbatim>\<open>quit\<close> (and \<^verbatim>\<open>restart\<close>) set the combo
  counter to 0 as part of the full reset, without a lost ball and without initializing a
  stage. Quitting the paused match with combo 3, by the method or by the key Q, leaves
  combo 0; the bricks are not regenerated, and the lives are not decremented but reset.
\<close>

theorem combo_reset_counterexample:
  "state (midGame Paused) = Paused \<and> combo (midGame Paused) = 3 \<and>
   combo (quit (midGame Paused)) = 0 \<and>
   combo (handleKeyDown 0 0 ''KeyQ'' (midGame Paused)) = 0 \<and>
   lives (midGame Paused) = 2 \<and> lives (quit (midGame Paused)) = 3 \<and>
   brickManager (quit (midGame Paused)) = brickManager (midGame Paused)"
  by (simp add: midGame_def quit_def handleKeyDown_def initStage_def Game_new_def Let_def
      DEFAULT_CONFIG_def)

lemma scan_combo:
  "combo (checkBrickCollisions g) = combo g \<or> combo (checkBrickCollisions g) = combo g + 1"
  by (simp add: checkBrickCollisions_def scanBricks_find resolveHit_combo_score
      split: option.splits)

lemma afterBrickScan_combo:
  "combo (afterBrickScan g) = combo g \<or> combo (afterBrickScan g) = combo g + 1"
  using scan_combo [of "g\<lparr> paddle := Paddle_update (paddle g),
           ball := snd (Ball_update (Paddle_update (paddle g)) (ball g)) \<rparr>"]
  by (simp add: afterBrickScan_def)

lemma combo_resets:
  "combo (handleBallLost g) = 0 \<and> combo (initStage n g) = 0 \<and> combo (restart g) = 0 \<and>
   combo (quit g) =
     (if state g = Paused \<or> state g = Gameover \<or> state g = Clear then 0 else combo g)"
  by (simp add: handleBallLost_def initStage_def restart_def quit_def Let_def)

lemma combo_unchanged:
  "combo (pause g) = combo g \<and> combo (handleKeyUp code g) = combo g \<and>
   combo (handleMouseMove mouseX g) = combo g"
  by (simp add: pause_def handleKeyUp_def handleMouseMove_def Let_def)

lemma combo_handleStageClear:
  "combo (handleStageClear g) = (if stage g \<ge> 3 then combo g else 0)"
  by (simp add: handleStageClear_def initStage_def Let_def)

lemma combo_Game_update:
  "combo (Game_update g) =
     (if fst (Ball_update (Paddle_update (paddle g)) (ball g)) = BallLost then 0
      else if getRemainingCount (brickManager (afterBrickScan g)) = 0 \<and> stage g < 3 then 0
      else combo (afterBrickScan g))"
proof (cases "fst (Ball_update (Paddle_update (paddle g)) (ball g))")
  case BallPlaying
  then show ?thesis
    by (simp add: Game_update_playing combo_handleStageClear afterBrickScan_frame)
next
  case BallLost
  then show ?thesis
    by (simp add: Game_update_lost combo_resets)
qed

lemma combo_handleClick:
  "state g \<noteq> Idle \<Longrightarrow> combo (handleClick r1 r2 g) = combo g"
  by (simp add: handleClick_def)

lemma combo_handleKeyDown:
  assumes "\<not> (code = ''Space'' \<and> state g = Idle)"
      and "\<not> ((code = ''Escape'' \<or> code = ''KeyP'') \<and> state g = Paused)"
      and "\<not> (code = ''KeyQ'' \<and> (state g = Paused \<or> state g = Gameover \<or> state g = Clear))"
      and "\<not> (code = ''Escape'' \<and> (state g = Gameover \<or> state g = Clear))"
      and "\<not> (code = ''KeyR'' \<and> (state g = Gameover \<or> state g = Clear))"
  shows "combo (handleKeyDown r1 r2 code g) = combo g"
proof -
  consider "code = ''KeyS''" | "code = ''Space''" | "code = ''Escape''" | "code = ''KeyP''"
    | "code = ''KeyQ''" | "code = ''KeyR''"
    | "code = ''ArrowLeft''" | "code = ''KeyA''" | "code = ''ArrowRight''" | "code = ''KeyD''"
    | "code \<noteq> ''KeyS'' \<and> code \<noteq> ''Space'' \<and> code \<noteq> ''Escape'' \<and> code \<noteq> ''KeyP'' \<and>
       code \<noteq> ''KeyQ'' \<and> code \<noteq> ''KeyR'' \<and> code \<noteq> ''ArrowLeft'' \<and> code \<noteq> ''KeyA'' \<and>
       code \<noteq> ''ArrowRight'' \<and> code \<noteq> ''KeyD''"
    by blast
  then show ?thesis
  proof cases
    case 1
    then show ?thesis
      by (cases "state g") (simp_all add: handleKeyDown_def Let_def)
  next
    case 2
    then show ?thesis using assms(1)
      by (cases "state g") (simp_all add: handleKeyDown_def Let_def)
  next
    case 3
    then show ?thesis using assms(2,4)
      by (cases "state g") (simp_all add: handleKeyDown_def Let_def pause_def)
  next
    case 4
    then show ?thesis using assms(2)
      by (cases "state g") (simp_all add: handleKeyDown_def Let_def pause_def)
  next
    case 5
    then show ?thesis using assms(3)
      by (cases "state g") (simp_all add: handleKeyDown_def Let_def)
  next
    case 6
    then show ?thesis using assms(5)
      by (cases "state g") (simp_all add: handleKeyDown_def Let_def)
  next
    case 7
    then show ?thesis
      by (cases "state g") (simp_all add: handleKeyDown_def Let_def)
  next
    case 8
    then show ?thesis
      by (cases "state g") (simp_all add: handleKeyDown_def Let_def)
  next
    case 9
    then show ?thesis
      by (cases "state g") (simp_all add: handleKeyDown_def Let_def)
  next
    case 10
    then show ?thesis
      by (cases "state g") (simp_all add: handleKeyDown_def Let_def)
  next
    case 11
    then show ?thesis
      by (cases "state g") (simp_all add: handleKeyDown_def Let_def)
  qed
qed

text \<open>
  Claim C5, amended. The combo counter is set to 0 by handling a lost ball, by
  initializing a stage, and also by \<^verbatim>\<open>quit\<close> (in the states it accepts) and by
  \<^verbatim>\<open>restart\<close>; no other operation of the controller resets it. The brick scan leaves it
  or increments it by one; \<^verbatim>\<open>pause\<close>, a key release and a pointer move leave it; a
  cleared stage leaves it at the last stage and otherwise initializes the next stage; a
  frame update ends with combo 0 when the ball is lost or the next stage is initialized,
  and otherwise with the combo of its brick scan. The remaining operations only dispatch:
  the game loop is a frame update in the playing state, \<^verbatim>\<open>start\<close> is a stage
  initialization followed by a frame, \<^verbatim>\<open>resume\<close> is a frame; a click outside the idle
  state leaves the combo and in the idle state is \<^verbatim>\<open>start\<close>; a key press leaves it
  unless it is one that starts, resumes, quits or restarts in the current state.
\<close>

theorem combo_reset_operations:
  "combo (handleBallLost g) = 0 \<and> combo (initStage n g) = 0 \<and> combo (restart g) = 0 \<and>
   combo (quit g) =
     (if state g = Paused \<or> state g = Gameover \<or> state g = Clear then 0 else combo g) \<and>
   (combo (checkBrickCollisions g) = combo g \<or>
    combo (checkBrickCollisions g) = combo g + 1) \<and>
   combo (pause g) = combo g \<and>
   combo (handleKeyUp code g) = combo g \<and>
   combo (handleMouseMove mouseX g) = combo g \<and>
   combo (handleStageClear g) = (if stage g \<ge> 3 then combo g else 0) \<and>
   combo (Game_update g) =
     (if fst (Ball_update (Paddle_update (paddle g)) (ball g)) = BallLost then 0
      else if getRemainingCount (brickManager (afterBrickScan g)) = 0 \<and> stage g < 3 then 0
      else combo (afterBrickScan g)) \<and>
   (combo (afterBrickScan g) = combo g \<or> combo (afterBrickScan g) = combo g + 1) \<and>
   gameLoop g = (if state g = Playing then Game_update g else g) \<and>
   start g =
     (if state g = Idle then Game_update (initStage (stage g) (g\<lparr> state := Playing \<rparr>)) else g) \<and>
   resume g = (if state g = Paused then Game_update (g\<lparr> state := Playing \<rparr>) else g) \<and>
   (state g \<noteq> Idle \<longrightarrow> combo (handleClick r1 r2 g) = combo g) \<and>
   (state g = Idle \<longrightarrow> handleClick r1 r2 g = start g) \<and>
   (\<not> (code = ''Space'' \<and> state g = Idle) \<and>
    \<not> ((code = ''Escape'' \<or> code = ''KeyP'') \<and> state g = Paused) \<and>
    \<not> (code = ''KeyQ'' \<and> (state g = Paused \<or> state g = Gameover \<or> state g = Clear)) \<and>
    \<not> (code = ''Escape'' \<and> (state g = Gameover \<or> state g = Clear)) \<and>
    \<not> (code = ''KeyR'' \<and> (state g = Gameover \<or> state g = Clear)) \<longrightarrow>
      combo (handleKeyDown r1 r2 code g) = combo g)"
proof -
  have l: "gameLoop g = (if state g = Playing then Game_update g else g)"
    by (simp add: gameLoop_def)
  have s: "start g =
     (if state g = Idle then Game_update (initStage (stage g) (g\<lparr> state := Playing \<rparr>)) else g)"
    by (simp add: start_def gameLoop_def initStage_def Let_def)
  have r: "resume g = (if state g = Paused then Game_update (g\<lparr> state := Playing \<rparr>) else g)"
    by (simp add: resume_def gameLoop_def)
  have c: "state g = Idle \<longrightarrow> handleClick r1 r2 g = start g"
    by (simp add: handleClick_def)
  have k: "\<not> (code = ''Space'' \<and> state g = Idle) \<and>
    \<not> ((code = ''Escape'' \<or> code = ''KeyP'') \<and> state g = Paused) \<and>
    \<not> (code = ''KeyQ'' \<and> (state g = Paused \<or> state g = Gameover \<or> state g = Clear)) \<and>
    \<not> (code = ''Escape'' \<and> (state g = Gameover \<or> state g = Clear)) \<and>
    \<not> (code = ''KeyR'' \<and> (state g = Gameover \<or> state g = Clear)) \<longrightarrow>
      combo (handleKeyDown r1 r2 code g) = combo g"
    using combo_handleKeyDown [of code g r1 r2] by (intro impI) (elim conjE)
  have h: "state g \<noteq> Idle \<longrightarrow> combo (handleClick r1 r2 g) = combo g"
    by (simp add: combo_handleClick)
  note u = combo_unchanged [of g code mouseX]
  show ?thesis
    by (intro conjI combo_resets [of g n, THEN conjunct1]
        combo_resets [of g n, THEN conjunct2, THEN conjunct1]
        combo_resets [of g n, THEN conjunct2, THEN conjunct2, THEN conjunct1]
        combo_resets [of g n, THEN conjunct2, THEN conjunct2, THEN conjunct2]
        scan_combo u [THEN conjunct1] u [THEN conjunct2, THEN conjunct1]
        u [THEN conjunct2, THEN conjunct2]
        combo_handleStageClear combo_Game_update afterBrickScan_combo l s r h c k)
qed

text \<open>
  The theorem at the match in progress, in four controller states.
\<close>

theorem combo_reset_operations_witness:
  "state (midGame Paused) = Paused \<and> combo (midGame Paused) = 3 \<and>
   combo (pause (midGame Paused)) = 3 \<and>
   combo (handleKeyUp ''ArrowLeft'' (midGame Paused)) = 3 \<and>
   combo (handleMouseMove 10 (midGame Paused)) = 3 \<and>
   combo (handleClick 0 0 (midGame Paused)) = 3 \<and>
   combo (handleKeyDown 0 0 ''ArrowLeft'' (midGame Paused)) = 3 \<and>
   combo (handleKeyDown 0 0 ''KeyS'' (midGame Gameover)) = 3 \<and>
   combo (quit (midGame Paused)) = 0 \<and>
   combo (restart (midGame Paused)) = 0 \<and>
   combo (handleBallLost (midGame Playing)) = 0 \<and>
   combo (initStage 2 (midGame Playing)) = 0 \<and>
   gameLoop (midGame Paused) = midGame Paused \<and>
   handleClick 0 0 (midGame Idle) = start (midGame Idle)"
proof -
  have s: "state (midGame t) = t \<and> combo (midGame t) = 3" for t
    by (simp add: midGame_def)
  show ?thesis
    using combo_reset_operations [of "midGame Paused" 2 "''ArrowLeft''" 10 0 0]
      combo_reset_operations [of "midGame Gameover" 2 "''KeyS''" 10 0 0]
      combo_reset_operations [of "midGame Playing" 2 "''KeyS''" 10 0 0]
      combo_reset_operations [of "midGame Idle" 2 "''KeyS''" 10 0 0]
    by (simp add: s)
qed

section \<open>Controller: quit and restart\<close>

text \<open>
  Claim C8. From each of the states paused, gameover and clear, \<^verbatim>\<open>quit\<close> and
  \<^verbatim>\<open>restart\<close> produce the same controller state: idle, score 0, the configured number
  of lives, stage 1, combo 0, the paddle reset (centred, no movement intent) and the ball
  reset onto the paddle (zero velocity, not launched).
\<close>

theorem quit_restart_equivalent:
  assumes "state g = Paused \<or> state g = Gameover \<or> state g = Clear"
  shows "quit g = restart g \<and>
         state (quit g) = Idle \<and> score (quit g) = 0 \<and>
         lives (quit g) = config_lives (config g) \<and>
         stage (quit g) = 1 \<and> combo (quit g) = 0 \<and>
         paddle (quit g) = Paddle_reset (paddle g) \<and>
         ball (quit g) = Ball_reset (Paddle_reset (paddle g)) (ball g) \<and>
         p_x (paddle (quit g)) = (p_canvasWidth (paddle g) - p_width (paddle g)) / 2 \<and>
         direction (paddle (quit g)) = 0 \<and>
         dx (ball (quit g)) = 0 \<and> dy (ball (quit g)) = 0 \<and> \<not> launched (ball (quit g))"
  using assms by (auto simp add: quit_def restart_def Let_def Paddle_reset_def Ball_reset_def)

text \<open>
  The match in progress, quit and restarted from the three states.
\<close>

theorem quit_restart_equivalent_witness:
  "state (midGame Paused) = Paused \<and> score (midGame Paused) = 30 \<and>
   lives (midGame Paused) = 2 \<and> combo (midGame Paused) = 3 \<and>
   quit (midGame Paused) = restart (midGame Paused) \<and>
   state (quit (midGame Paused)) = Idle \<and> score (quit (midGame Paused)) = 0 \<and>
   lives (quit (midGame Paused)) = 3 \<and> stage (quit (midGame Paused)) = 1 \<and>
   combo (quit (midGame Paused)) = 0 \<and>
   quit (midGame Gameover) = restart (midGame Gameover) \<and>
   quit (midGame Clear) = restart (midGame Clear)"
proof -
  have s: "state (midGame t) = t \<and> score (midGame t) = 30 \<and> lives (midGame t) = 2 \<and>
           combo (midGame t) = 3 \<and> config_lives (config (midGame t)) = 3" for t
    by (simp add: midGame_def initStage_def Game_new_def DEFAULT_CONFIG_def Let_def)
  show ?thesis
    using quit_restart_equivalent [of "midGame Paused"]
      quit_restart_equivalent [of "midGame Gameover"]
      quit_restart_equivalent [of "midGame Clear"]
    by (simp only: s) blast
qed

section \<open>Controller: the scoreboard overlay\<close>

text \<open>
  Claim C9. From each of the states idle, gameover and clear, the key S enters the scores
  state and remembers the state it came from; a second S, or Escape, returns to exactly
  that state. The round trip changes nothing of the controller but the table of pressed
  keys and the remembered previous state.
\<close>

theorem scoreboard_round_trip:
  assumes "state g = Idle \<or> state g = Gameover \<or> state g = Clear"
  shows "state (handleKeyDown r1 r2 ''KeyS'' g) = Scores \<and>
         previousState (handleKeyDown r1 r2 ''KeyS'' g) = state g \<and>
         state (handleKeyDown r3 r4 ''KeyS'' (handleKeyDown r1 r2 ''KeyS'' g)) = state g \<and>
         state (handleKeyDown r3 r4 ''Escape'' (handleKeyDown r1 r2 ''KeyS'' g)) = state g \<and>
         handleKeyDown r3 r4 ''KeyS'' (handleKeyDown r1 r2 ''KeyS'' g) =
           g\<lparr> previousState := state g, keys := (keys g)(''KeyS'' := True) \<rparr> \<and>
         handleKeyDown r3 r4 ''Escape'' (handleKeyDown r1 r2 ''KeyS'' g) =
           g\<lparr> previousState := state g,
               keys := (keys g)(''KeyS'' := True, ''Escape'' := True) \<rparr>"
proof -
  have e: "handleKeyDown r1 r2 ''KeyS'' g =
             g\<lparr> keys := (keys g)(''KeyS'' := True), previousState := state g, state := Scores \<rparr>"
    using assms by (auto simp add: handleKeyDown_def Let_def)
  have s: "handleKeyDown r3 r4 ''KeyS''
             (g\<lparr> keys := (keys g)(''KeyS'' := True), previousState := state g, state := Scores \<rparr>) =
           g\<lparr> previousState := state g, keys := (keys g)(''KeyS'' := True) \<rparr>"
    by (simp add: handleKeyDown_def Let_def)
  have x: "handleKeyDown r3 r4 ''Escape''
             (g\<lparr> keys := (keys g)(''KeyS'' := True), previousState := state g, state := Scores \<rparr>) =
           g\<lparr> previousState := state g,
               keys := (keys g)(''KeyS'' := True, ''Escape'' := True) \<rparr>"
    by (simp add: handleKeyDown_def Let_def)
  show ?thesis
    unfolding e s x by simp
qed

text \<open>
  Entered from gameover, the overlay returns to gameover, by S and by Escape; from idle to
  idle and from clear to clear.
\<close>

theorem scoreboard_round_trip_witness:
  "state (midGame Gameover) = Gameover \<and>
   state (handleKeyDown 0 0 ''KeyS'' (midGame Gameover)) = Scores \<and>
   state (handleKeyDown 0 0 ''KeyS'' (handleKeyDown 0 0 ''KeyS'' (midGame Gameover))) = Gameover \<and>
   state (handleKeyDown 0 0 ''Escape'' (handleKeyDown 0 0 ''KeyS'' (midGame Gameover))) = Gameover \<and>
   state (handleKeyDown 0 0 ''Escape'' (handleKeyDown 0 0 ''KeyS'' (midGame Idle))) = Idle \<and>
   state (handleKeyDown 0 0 ''Escape'' (handleKeyDown 0 0 ''KeyS'' (midGame Clear))) = Clear"
proof -
  have s: "state (midGame t) = t" for t
    by (simp add: midGame_def)
  show ?thesis
    using scoreboard_round_trip [of "midGame Gameover" 0 0 0 0]
      scoreboard_round_trip [of "midGame Idle" 0 0 0 0]
      scoreboard_round_trip [of "midGame Clear" 0 0 0 0]
    by (simp add: s)
qed

end
